theory Spec2Isabelle
  imports Main
begin

section \<open>COLi core (include/coli/core.h): a shallow embedding\<close>

text \<open>
  The header \<^verbatim>\<open>core.h\<close> declares the classes \<^verbatim>\<open>function\<close>, \<^verbatim>\<open>buffer\<close>,
  \<^verbatim>\<open>computation\<close> and the small text parser \<^verbatim>\<open>coli::parser\<close>.  Every class is a
  record, every member function takes the object and returns the updated object, and
  every \<^verbatim>\<open>assert\<close> of the source is a branch that returns an error value.
  Pointers are \<open>option\<close> values (\<open>None\<close> is \<^verbatim>\<open>NULL\<close>); objects that are shared
  through pointers (the parent \<^verbatim>\<open>function\<close>) live in an explicit store.
\<close>

subsection \<open>Errors\<close>

datatype error =
    AssertionFailed string  \<comment> \<open>an \<^verbatim>\<open>assert\<close> of the source failed; the text is its condition\<close>
  | NullString              \<comment> \<open>a \<^verbatim>\<open>std::string\<close> built from a null \<^verbatim>\<open>char *\<close>\<close>
  | DanglingPointer         \<comment> \<open>a non-null pointer that refers to no live object\<close>
  | OutOfRange              \<comment> \<open>\<^verbatim>\<open>std::out_of_range\<close> thrown by \<^verbatim>\<open>std::string::substr\<close>\<close>

subsection \<open>\<^verbatim>\<open>coli::parser::space\<close>\<close>

record parser_space =
  constraints :: "string list"
  dimensions :: "string list"

text \<open>
  The body of the range-for loop of \<^verbatim>\<open>space::replace\<close>: the remaining elements of
  \<^verbatim>\<open>dimensions\<close> are visited in order, \<^verbatim>\<open>new_dimensions\<close> is the accumulator and
  \<^verbatim>\<open>push_back\<close> appends at its end.
\<close>

fun replace_loop :: "string \<Rightarrow> string \<Rightarrow> string \<Rightarrow> string list \<Rightarrow> string list \<Rightarrow> string list" where
  "replace_loop in' out1 out2 [] new_dimensions = new_dimensions"
| "replace_loop in' out1 out2 (dim # rest) new_dimensions =
     (if dim = in'
      then replace_loop in' out1 out2 rest ((new_dimensions @ [out1]) @ [out2])
      else replace_loop in' out1 out2 rest (new_dimensions @ [dim]))"

definition replace :: "string \<Rightarrow> string \<Rightarrow> string \<Rightarrow> parser_space \<Rightarrow> parser_space" where
  "replace in' out1 out2 sp =
     sp\<lparr>dimensions := replace_loop in' out1 out2 (dimensions sp) []\<rparr>"

text \<open>
  The substitution as the specification words it: every element equal to \<open>in'\<close> becomes
  the two elements \<open>out1\<close>, \<open>out2\<close>; every other element stays.
\<close>

definition substitute_dims :: "string \<Rightarrow> string \<Rightarrow> string \<Rightarrow> string list \<Rightarrow> string list" where
  "substitute_dims in' out1 out2 L = concat (map (\<lambda>d. if d = in' then [out1, out2] else [d]) L)"

subsection \<open>The integer-set library\<close>

text \<open>
  Modelled from the spec: the integer-set library (isl) is a dependency of the repository
  and none of its code is part of it; section 4.1 of the specification lists the
  operations the core uses.  A set is modelled by what it denotes: its parameters, its
  tuple name (\<open>None\<close> when the tuple is unnamed), its dimension names and the integer
  points it holds, each point paired with the values of the parameters.  A map is a
  relation between two such tuples.  Coalescing changes how a set is written, never what
  it holds, so on this model it is the identity.  Every isl function returns
  \<^verbatim>\<open>NULL\<close> when an argument is \<^verbatim>\<open>NULL\<close> or when the spaces of its arguments
  do not match.
\<close>

record isl_set =
  set_params :: "string list"
  set_tuple :: "string option"
  set_dims :: "string list"
  set_points :: "(int list \<times> int list) set"

record isl_map =
  map_params :: "string list"
  map_in_tuple :: "string option"
  map_in_dims :: "string list"
  map_out_tuple :: "string option"
  map_out_dims :: "string list"
  map_pairs :: "(int list \<times> int list \<times> int list) set"

datatype isl_space =
    SetSpace "string list" "string option" "string list"
  | MapSpace "string list" "string option" "string list" "string option" "string list"

datatype isl_dim_type = isl_dim_param | isl_dim_in | isl_dim_out

abbreviation isl_dim_set :: isl_dim_type where
  "isl_dim_set \<equiv> isl_dim_out"

type_synonym isl_ctx = nat
type_synonym isl_ast_node = nat
type_synonym isl_ast_expr = nat

text \<open>Every point of a set has one value per parameter and one per dimension.\<close>

definition isl_set_ok :: "isl_set \<Rightarrow> bool" where
  "isl_set_ok D \<longleftrightarrow>
     (\<forall>(pv, x) \<in> set_points D. length pv = length (set_params D) \<and> length x = length (set_dims D))"

definition isl_set_copy :: "isl_set option \<Rightarrow> isl_set option" where
  "isl_set_copy D = D"

definition isl_map_copy :: "isl_map option \<Rightarrow> isl_map option" where
  "isl_map_copy M = M"

definition isl_set_get_space :: "isl_set option \<Rightarrow> isl_space option" where
  "isl_set_get_space D =
     (case D of None \<Rightarrow> None
      | Some d \<Rightarrow> Some (SetSpace (set_params d) (set_tuple d) (set_dims d)))"

fun isl_space_get_tuple_name :: "isl_space option \<Rightarrow> isl_dim_type \<Rightarrow> string option" where
  "isl_space_get_tuple_name (Some (SetSpace ps t ds)) isl_dim_out = t"
| "isl_space_get_tuple_name (Some (MapSpace ps it ids ot ods)) isl_dim_in = it"
| "isl_space_get_tuple_name (Some (MapSpace ps it ids ot ods)) isl_dim_out = ot"
| "isl_space_get_tuple_name _ _ = None"

fun isl_space_map_from_set :: "isl_space option \<Rightarrow> isl_space option" where
  "isl_space_map_from_set (Some (SetSpace ps t ds)) = Some (MapSpace ps t ds t ds)"
| "isl_space_map_from_set _ = None"

fun isl_map_identity :: "isl_space option \<Rightarrow> isl_map option" where
  "isl_map_identity (Some (MapSpace ps it ids ot ods)) =
     (if length ids = length ods
      then Some \<lparr>map_params = ps, map_in_tuple = it, map_in_dims = ids,
                 map_out_tuple = ot, map_out_dims = ods,
                 map_pairs = {(pv, x, y). length pv = length ps \<and> length x = length ids \<and> y = x}\<rparr>
      else None)"
| "isl_map_identity _ = None"

fun isl_map_intersect_domain :: "isl_map option \<Rightarrow> isl_set option \<Rightarrow> isl_map option" where
  "isl_map_intersect_domain (Some M) (Some D) =
     (if map_params M = set_params D \<and> map_in_tuple M = set_tuple D
         \<and> length (map_in_dims M) = length (set_dims D)
      then Some (M\<lparr>map_pairs := {(pv, x, y). (pv, x, y) \<in> map_pairs M \<and> (pv, x) \<in> set_points D}\<rparr>)
      else None)"
| "isl_map_intersect_domain _ _ = None"

text \<open>
  isl refuses a tuple name that reads as a number: \<^verbatim>\<open>isl_map_set_tuple_name\<close> hands
  the name to \<^verbatim>\<open>strtol\<close> and returns \<^verbatim>\<open>NULL\<close> when that converts anything, which
  it does exactly when a digit follows the leading white space and the optional sign.
  The empty name is accepted.
\<close>

definition isspace :: "char \<Rightarrow> bool" where
  "isspace ch \<longleftrightarrow> ch \<in> {CHR '' '', CHR 0x09, CHR 0x0A, CHR 0x0B, CHR 0x0C, CHR 0x0D}"

definition isdigit :: "char \<Rightarrow> bool" where
  "isdigit ch \<longleftrightarrow> ch \<in> set ''0123456789''"

definition name_ok :: "string \<Rightarrow> bool" where
  "name_ok s =
     (case dropWhile isspace s of
        [] \<Rightarrow> True
      | ch # rest \<Rightarrow>
         if ch = CHR ''+'' \<or> ch = CHR ''-''
         then (case rest of [] \<Rightarrow> True | d # _ \<Rightarrow> \<not> isdigit d)
         else \<not> isdigit ch)"

fun isl_map_set_tuple_name :: "isl_map option \<Rightarrow> isl_dim_type \<Rightarrow> string \<Rightarrow> isl_map option" where
  "isl_map_set_tuple_name (Some M) isl_dim_in s =
     (if name_ok s then Some (M\<lparr>map_in_tuple := Some s\<rparr>) else None)"
| "isl_map_set_tuple_name (Some M) isl_dim_out s =
     (if name_ok s then Some (M\<lparr>map_out_tuple := Some s\<rparr>) else None)"
| "isl_map_set_tuple_name _ _ _ = None"

definition isl_map_coalesce :: "isl_map option \<Rightarrow> isl_map option" where
  "isl_map_coalesce M = M"

fun isl_set_apply :: "isl_set option \<Rightarrow> isl_map option \<Rightarrow> isl_set option" where
  "isl_set_apply (Some D) (Some M) =
     (if map_params M = set_params D \<and> map_in_tuple M = set_tuple D
         \<and> length (map_in_dims M) = length (set_dims D)
      then Some \<lparr>set_params = map_params M, set_tuple = map_out_tuple M,
                 set_dims = map_out_dims M,
                 set_points = {(pv, y). \<exists>x. (pv, x) \<in> set_points D \<and> (pv, x, y) \<in> map_pairs M}\<rparr>
      else None)"
| "isl_set_apply _ _ = None"

text \<open>
  Modelled from the spec: reading a set or a map from its text and writing a map as text
  are isl's (\<^verbatim>\<open>isl_set_read_from_str\<close>, \<^verbatim>\<open>isl_map_read_from_str\<close>,
  \<^verbatim>\<open>isl_map_to_str\<close>).  The model takes them as a parameter; a reader returns
  \<open>None\<close> (\<^verbatim>\<open>NULL\<close>) on text it does not accept.
\<close>

record isl_text =
  set_read_from_str :: "string \<Rightarrow> isl_set option"
  map_read_from_str :: "string \<Rightarrow> isl_map option"
  map_to_str :: "isl_map \<Rightarrow> string"

definition isl_set_read_from_str :: "isl_text \<Rightarrow> isl_ctx \<Rightarrow> string \<Rightarrow> isl_set option" where
  "isl_set_read_from_str tx c str = set_read_from_str tx str"



subsection \<open>Halide values\<close>

text \<open>
  Halide's expressions, statements, types and buffers belong to the host code generator.
  The header only stores them, so they are tokens here; a default-constructed
  \<^verbatim>\<open>Expr\<close> or \<^verbatim>\<open>Stmt\<close> is the undefined one.  \<^verbatim>\<open>Halide::Buffer\<close> keeps what
  its constructor is given; the checks Halide's constructor makes on its own are not
  part of this repository.
\<close>

datatype halide_expr = UndefinedExpr | Expr nat
datatype halide_stmt = UndefinedStmt | Stmt nat
datatype halide_type = Type nat bool bool

record halide_buffer =
  hb_type :: halide_type
  hb_sizes :: "int list"
  hb_data :: "nat option"
  hb_name :: string

subsection \<open>\<^verbatim>\<open>coli::function\<close>\<close>

datatype argument_type = argument_input | argument_output | argument_internal

text \<open>
  \<^verbatim>\<open>body\<close> is a vector of pointers to computations: a computation is named by the
  address it lives at.  \<^verbatim>\<open>std::map\<close> is a partial function.  The \<^verbatim>\<open>int\<close> levels
  are only compared, so they are mathematical integers.
\<close>

record coli_function =
  name :: string
  ctx :: isl_ctx
  ast :: "isl_ast_node option"
  parallel_dimensions :: "string \<rightharpoonup> int"
  vector_dimensions :: "string \<rightharpoonup> int"
  body :: "nat list"
  halide_stmt :: "halide_stmt option"
  buffers_list :: "string \<rightharpoonup> halide_buffer"

type_synonym function_store = "nat \<rightharpoonup> coli_function"

text \<open>
  The constructor \<^verbatim>\<open>function(std::string name)\<close>.  Its member initialiser list holds
  \<^verbatim>\<open>name\<close> only and its body assigns \<^verbatim>\<open>halide_stmt\<close> and \<^verbatim>\<open>ctx\<close>.  The
  members of class type (the vectors and maps) are default-constructed, hence empty.  The
  pointer \<^verbatim>\<open>ast\<close> is assigned nowhere, so it keeps whatever the storage of the object
  held before: \<open>storage_ast\<close>.  \<open>new_ctx\<close> is the handle \<^verbatim>\<open>isl_ctx_alloc()\<close> returns.
\<close>

definition function_ctor :: "isl_ast_node option \<Rightarrow> isl_ctx \<Rightarrow> string \<Rightarrow> error + coli_function" where
  "function_ctor storage_ast new_ctx name' =
     (if \<not> length name' > 0 then Inl (AssertionFailed ''(name.length()>0) && (\"Empty function name\")'')
      else Inr \<lparr>name = name', ctx = new_ctx, ast = storage_ast,
                parallel_dimensions = Map.empty, vector_dimensions = Map.empty,
                body = [], halide_stmt = None, buffers_list = Map.empty\<rparr>)"

definition get_ctx :: "coli_function \<Rightarrow> isl_ctx" where
  "get_ctx f = ctx f"

definition get_isl_ast :: "coli_function \<Rightarrow> error + isl_ast_node" where
  "get_isl_ast f =
     (case ast f of
        None \<Rightarrow> Inl (AssertionFailed ''(ast != NULL) && (\"You should generate an ISL ast first (gen_isl_ast()).\")'')
      | Some a \<Rightarrow> Inr a)"

definition should_parallelize :: "coli_function \<Rightarrow> string \<Rightarrow> int \<Rightarrow> error + bool" where
  "should_parallelize f comp' lev =
     (if \<not> length comp' > 0 then Inl (AssertionFailed ''comp.length() > 0'')
      else if \<not> lev \<ge> 0 then Inl (AssertionFailed ''lev >= 0'')
      else (case parallel_dimensions f comp' of
              None \<Rightarrow> Inr False
            | Some second \<Rightarrow> Inr (second = lev)))"

definition should_vectorize :: "coli_function \<Rightarrow> string \<Rightarrow> int \<Rightarrow> error + bool" where
  "should_vectorize f comp' lev =
     (if \<not> length comp' > 0 then Inl (AssertionFailed ''comp.length() > 0'')
      else if \<not> lev \<ge> 0 then Inl (AssertionFailed ''lev >= 0'')
      else (case vector_dimensions f comp' of
              None \<Rightarrow> Inr False
            | Some second \<Rightarrow> Inr (second = lev)))"

text \<open>
  Modelled from the spec: \<^verbatim>\<open>function::add_computation\<close> is declared in the header and
  defined in a file that is not part of the sources.  The specification has the
  constructor register the computation with the parent function, whose body is the
  ordered list of its computations: the pointer is appended to \<^verbatim>\<open>body\<close>.
\<close>

definition add_computation :: "coli_function \<Rightarrow> nat \<Rightarrow> coli_function" where
  "add_computation f cpt = f\<lparr>body := body f @ [cpt]\<rparr>"

subsection \<open>\<^verbatim>\<open>coli::buffer\<close>\<close>

record buffer =
  name :: string
  nb_dims :: int
  dim_sizes :: "int list"
  type :: halide_type
  data :: "nat option"
  fct :: "nat option"
  is_arg :: bool
  argtype :: argument_type

text \<open>\<^verbatim>\<open>std::map::insert\<close> leaves the map as it is when the key is already there.\<close>

definition map_insert :: "('k \<rightharpoonup> 'v) \<Rightarrow> 'k \<Rightarrow> 'v \<Rightarrow> ('k \<rightharpoonup> 'v)" where
  "map_insert m k v = (case m k of None \<Rightarrow> m(k \<mapsto> v) | Some _ \<Rightarrow> m)"

text \<open>
  The constructor of \<^verbatim>\<open>buffer\<close>.  The four assertions come in the order of the
  source.  In \<^verbatim>\<open>nb_dims == dim_sizes.size()\<close> the \<^verbatim>\<open>int\<close> is positive by the
  assertion before it, so the comparison with the unsigned size is the comparison of the
  two numbers.  The parent function is reached through the pointer \<open>fct'\<close> in the store.
\<close>

definition buffer_ctor ::
  "string \<Rightarrow> int \<Rightarrow> int list \<Rightarrow> halide_type \<Rightarrow> nat option \<Rightarrow> bool \<Rightarrow> argument_type \<Rightarrow> nat option
     \<Rightarrow> function_store \<Rightarrow> error + (buffer \<times> function_store)" where
  "buffer_ctor name' nb_dims' dim_sizes' type' data' is_argument argt fct' fs =
     (if \<not> length name' > 0 then Inl (AssertionFailed ''name.length()>0 && \"Empty buffer name\"'')
      else if \<not> nb_dims' > 0 then Inl (AssertionFailed ''nb_dims>0 && \"Buffer dimensions <= 0\"'')
      else if \<not> nb_dims' = int (length dim_sizes')
        then Inl (AssertionFailed ''nb_dims == dim_sizes.size() && \"Mismatch in the number of dimensions\"'')
      else (case fct' of
         None \<Rightarrow> Inl (AssertionFailed ''fct != NULL && \"Input function is NULL\"'')
       | Some a \<Rightarrow>
          (case fs a of
             None \<Rightarrow> Inl DanglingPointer
           | Some f \<Rightarrow>
              let buf = \<lparr>hb_type = type', hb_sizes = dim_sizes', hb_data = data', hb_name = name'\<rparr>;
                  f' = f\<lparr>buffers_list := map_insert (buffers_list f) (hb_name buf) buf\<rparr>
              in Inr (\<lparr>name = name', nb_dims = nb_dims', dim_sizes = dim_sizes', type = type',
                        data = data', fct = fct', is_arg = is_argument,
                        argtype = (if is_argument = True then argt else argument_internal)\<rparr>,
                      fs(a \<mapsto> f')))))"


definition get_argument_type :: "buffer \<Rightarrow> argument_type" where
  "get_argument_type b = argtype b"

subsection \<open>\<^verbatim>\<open>coli::computation\<close>\<close>

text \<open>
  The member \<^verbatim>\<open>function\<close> (the pointer to the parent function) is the field
  \<open>function_ptr\<close>.
\<close>

record computation =
  ctx :: isl_ctx
  time_processor_domain :: "isl_set option"
  iteration_domain :: "isl_set option"
  schedule :: "isl_map option"
  function_ptr :: "nat option"
  name :: string
  expression :: halide_expr
  stmt :: halide_stmt
  access :: "isl_map option"
  index_expr :: "isl_ast_expr option"

definition get_iteration_domain :: "computation \<Rightarrow> error + isl_set" where
  "get_iteration_domain c =
     (case iteration_domain c of
        None \<Rightarrow> Inl (AssertionFailed ''iteration_domain != NULL'')
      | Some D \<Rightarrow> Inr D)"

definition get_schedule :: "computation \<Rightarrow> isl_map option" where
  "get_schedule c = schedule c"

definition get_time_processor_domain :: "computation \<Rightarrow> isl_set option" where
  "get_time_processor_domain c = time_processor_domain c"

definition get_access :: "computation \<Rightarrow> isl_map option" where
  "get_access c = access c"

definition set_schedule :: "computation \<Rightarrow> isl_map option \<Rightarrow> computation" where
  "set_schedule c map' = c\<lparr>schedule := map'\<rparr>"

definition set_identity_schedule :: "computation \<Rightarrow> error + computation" where
  "set_identity_schedule c =
     (case get_iteration_domain c of
        Inl e \<Rightarrow> Inl e
      | Inr D \<Rightarrow>
         let sp = isl_set_get_space (Some D);
             sched = isl_map_identity (isl_space_map_from_set sp);
             sched = isl_map_intersect_domain sched (isl_set_copy (Some D));
             sched = isl_map_set_tuple_name sched isl_dim_out [];
             sched = isl_map_coalesce sched
         in Inr (set_schedule c sched))"

definition gen_time_processor_domain :: "computation \<Rightarrow> error + computation" where
  "gen_time_processor_domain c =
     (case get_iteration_domain c of
        Inl e \<Rightarrow> Inl e
      | Inr D \<Rightarrow>
         (case get_schedule c of
            None \<Rightarrow> Inl (AssertionFailed ''this->get_schedule() != NULL'')
          | Some M \<Rightarrow>
             Inr (c\<lparr>time_processor_domain :=
                       isl_set_apply (isl_set_copy (Some D)) (isl_map_copy (Some M))\<rparr>)))"



text \<open>
  \<^verbatim>\<open>init_computation\<close> works on the object under construction, \<open>c\<close>, which lives at
  the address \<open>this\<close>; \<open>fs\<close> is the store of functions and \<open>fct'\<close> the pointer to the
  parent.  \<^verbatim>\<open>isl_space_get_tuple_name\<close> gives \<^verbatim>\<open>NULL\<close> for a set that is
  \<^verbatim>\<open>NULL\<close> or whose tuple has no name, and then the \<^verbatim>\<open>std::string\<close> for
  \<^verbatim>\<open>name\<close> cannot be built.
\<close>

definition init_computation ::
  "isl_text \<Rightarrow> nat \<Rightarrow> computation \<Rightarrow> string \<Rightarrow> nat option \<Rightarrow> function_store
     \<Rightarrow> error + (computation \<times> function_store)" where
  "init_computation tx this c iteration_space_str fct' fs =
     (case fct' of
        None \<Rightarrow> Inl (AssertionFailed ''fct != NULL'')
      | Some a \<Rightarrow>
         if \<not> length iteration_space_str > 0
         then Inl (AssertionFailed ''iteration_space_str.length()>0 && (\"Empty iteration space\")'')
         else
          (case fs a of
             None \<Rightarrow> Inl DanglingPointer
           | Some f \<Rightarrow>
              let c = c\<lparr>index_expr := None, access := None, schedule := None,
                        stmt := UndefinedStmt, time_processor_domain := None\<rparr>;
                  c = c\<lparr>computation.ctx := get_ctx f\<rparr>;
                  c = c\<lparr>iteration_domain :=
                          isl_set_read_from_str tx (computation.ctx c) iteration_space_str\<rparr>
              in (case isl_space_get_tuple_name (isl_set_get_space (iteration_domain c)) isl_dim_set of
                    None \<Rightarrow> Inl NullString
                  | Some n \<Rightarrow>
                     let c = c\<lparr>computation.name := n\<rparr>;
                         c = c\<lparr>function_ptr := fct'\<rparr>;
                         fs = fs(a \<mapsto> add_computation f this)
                     in (case set_identity_schedule c of
                           Inl e \<Rightarrow> Inl e
                         | Inr c \<Rightarrow> Inr (c, fs)))))"

text \<open>
  The constructor \<^verbatim>\<open>computation(iteration_space_str, expr, fct)\<close>; \<open>storage\<close> is the
  object before any member is assigned.
\<close>

definition computation_ctor ::
  "isl_text \<Rightarrow> nat \<Rightarrow> computation \<Rightarrow> string \<Rightarrow> halide_expr \<Rightarrow> nat option \<Rightarrow> function_store
     \<Rightarrow> error + (computation \<times> function_store)" where
  "computation_ctor tx this storage iteration_space_str expr fct' fs =
     (case init_computation tx this storage iteration_space_str fct' fs of
        Inl e \<Rightarrow> Inl e
      | Inr (c, fs') \<Rightarrow> Inr (c\<lparr>expression := expr\<rparr>, fs'))"

text \<open>
  The identity schedule as the specification words it: the identity relation on the
  points of \<open>D\<close>, from the space of \<open>D\<close> to the same space under another tuple name.
\<close>

definition identity_relation_on :: "isl_set \<Rightarrow> string \<Rightarrow> isl_map" where
  "identity_relation_on D range_name =
     \<lparr>map_params = set_params D, map_in_tuple = set_tuple D, map_in_dims = set_dims D,
      map_out_tuple = Some range_name, map_out_dims = set_dims D,
      map_pairs = {(pv, x, y). (pv, x) \<in> set_points D \<and> y = x}\<rparr>"

subsection \<open>\<^verbatim>\<open>std::string\<close> and the integer types of the parser\<close>








subsection \<open>\<^verbatim>\<open>coli::parser::constraint\<close> and \<^verbatim>\<open>coli::parser::map\<close>\<close>

record parser_constraint =
  constraints :: "string list"












text \<open>
  The fields \<^verbatim>\<open>domain\<close> and \<^verbatim>\<open>range\<close> of \<^verbatim>\<open>parser::map\<close> are \<open>domain\<close> and
  \<open>range'\<close>; its field \<^verbatim>\<open>constraints\<close> is \<open>map_constraints\<close>.
\<close>

record parser_map =
  parameters :: parser_space
  domain_name :: string
  range_name :: string
  domain :: parser_space
  range' :: parser_space
  map_constraints :: parser_constraint








definition strip_blanks :: "string \<Rightarrow> string" where
  "strip_blanks s = filter (\<lambda>ch. ch \<noteq> CHR '' '') s"


subsection \<open>Concrete instances\<close>

text \<open>
  A function with one tagged computation, the set \<^verbatim>\<open>{ S0[i] : 0 <= i < 2 }\<close>, a text
  interface that knows this set and its identity map into \<^verbatim>\<open>buf\<close>, an object
  storage with arbitrary content, and a computation and a buffer built by hand.
\<close>

definition F0 :: coli_function where
  "F0 = \<lparr>coli_function.name = ''f'', coli_function.ctx = 0, ast = None,
         parallel_dimensions = [''S0'' \<mapsto> 1], vector_dimensions = [''S0'' \<mapsto> 2],
         body = [], halide_stmt = None, buffers_list = Map.empty\<rparr>"

definition D0 :: isl_set where
  "D0 = \<lparr>set_params = [], set_tuple = Some ''S0'', set_dims = [''i''],
         set_points = {([], [0]), ([], [1])}\<rparr>"

definition tx0 :: isl_text where
  "tx0 = \<lparr>set_read_from_str = (\<lambda>s. if s = ''{ S0[i] : 0 <= i < 2 }'' then Some D0 else None),
          map_read_from_str =
            (\<lambda>s. if s = ''{ S0[i] -> buf[i] : 0 <= i <= 1 }''
                 then Some (identity_relation_on D0 ''buf'') else None),
          map_to_str =
            (\<lambda>m. if m = identity_relation_on D0 ''buf''
                 then ''{ S0[i] -> buf[i] : 0 <= i <= 1 }'' else ''{ }'')\<rparr>"

definition storage0 :: computation where
  "storage0 = \<lparr>computation.ctx = 5, time_processor_domain = Some D0, iteration_domain = None,
               schedule = None, function_ptr = Some 9, name = [], expression = UndefinedExpr,
               stmt = UndefinedStmt, access = None, index_expr = Some 3\<rparr>"

definition c0 :: computation where
  "c0 = \<lparr>computation.ctx = 0, time_processor_domain = None, iteration_domain = Some D0,
         schedule = Some (identity_relation_on D0 []), function_ptr = Some 0, name = ''S0'',
         expression = Expr 0, stmt = UndefinedStmt, access = None, index_expr = None\<rparr>"

definition B0 :: buffer where
  "B0 = \<lparr>buffer.name = ''buf'', nb_dims = 1, dim_sizes = [2], type = Type 8 False False,
         data = None, fct = Some 0, is_arg = True, argtype = argument_output\<rparr>"



subsection \<open>Theorems about \<^verbatim>\<open>space::replace\<close>\<close>

lemma replace_loop_acc:
  "replace_loop in' out1 out2 L acc = acc @ substitute_dims in' out1 out2 L"
  by (induction L arbitrary: acc) (simp_all add: substitute_dims_def)

lemma length_substitute_dims:
  "length (substitute_dims in' out1 out2 L) = length L + count_list L in'"
  by (induction L) (simp_all add: substitute_dims_def)

text \<open>
  C6. For every dimension list \<open>L\<close> and strings \<open>in'\<close>, \<open>out1\<close>, \<open>out2\<close>, \<^verbatim>\<open>replace\<close>
  produces the list obtained from \<open>L\<close> by substituting each element equal to \<open>in'\<close> with
  \<open>out1\<close> followed by \<open>out2\<close>, all other elements unchanged and in their original order;
  the new length is the old one plus the number of occurrences of \<open>in'\<close>.  The
  constraints kept by the space are not touched.
\<close>

theorem replace_substitutes:
  "dimensions (replace in' out1 out2 sp) = substitute_dims in' out1 out2 (dimensions sp)
   \<and> length (dimensions (replace in' out1 out2 sp))
       = length (dimensions sp) + count_list (dimensions sp) in'
   \<and> parser_space.constraints (replace in' out1 out2 sp) = parser_space.constraints sp"
  by (simp add: replace_def replace_loop_acc length_substitute_dims)

subsection \<open>Theorems about \<^verbatim>\<open>function\<close> and \<^verbatim>\<open>buffer\<close>\<close>

text \<open>
  C9. For every function \<open>F\<close>, non-empty computation name \<open>c\<close> and level \<open>lev \<ge> 0\<close>,
  \<^verbatim>\<open>should_parallelize\<close> returns true exactly when \<^verbatim>\<open>parallel_dimensions\<close> maps
  \<open>c\<close> to \<open>lev\<close> (so it returns false for an untagged computation), and
  \<^verbatim>\<open>should_vectorize\<close> returns true exactly when \<^verbatim>\<open>vector_dimensions\<close> maps \<open>c\<close>
  to \<open>lev\<close>.
\<close>

theorem should_parallelize_iff:
  assumes "length c > 0" and "lev \<ge> 0"
  shows "should_parallelize F c lev = Inr (parallel_dimensions F c = Some lev)
       \<and> should_vectorize F c lev = Inr (vector_dimensions F c = Some lev)"
  using assms by (simp add: should_parallelize_def should_vectorize_def split: option.split)

theorem should_parallelize_iff_witness:
  "should_parallelize F0 ''S0'' 1 = Inr True \<and> should_vectorize F0 ''S0'' 1 = Inr False
   \<and> should_parallelize F0 ''S1'' 0 = Inr False \<and> should_vectorize F0 ''S1'' 0 = Inr False"
  using should_parallelize_iff [of "''S0''" 1 F0] should_parallelize_iff [of "''S1''" 0 F0]
  by (simp add: F0_def)

text \<open>
  C10. A buffer constructed with \<^verbatim>\<open>is_argument == false\<close> has argument type
  \<^verbatim>\<open>internal\<close> whatever kind the constructor was given; a buffer constructed with
  \<^verbatim>\<open>is_argument == true\<close> has exactly the kind given.
\<close>

theorem argument_type_of_buffer:
  assumes "buffer_ctor n d sz ty dat is_argument argt fct' fs = Inr (b, fs')"
  shows "get_argument_type b = (if is_argument then argt else argument_internal)"
  using assms
  by (auto simp: buffer_ctor_def get_argument_type_def Let_def split: if_splits option.splits)

theorem argument_type_of_buffer_witness:
  "buffer_ctor ''buf'' 1 [2] (Type 8 False False) None False argument_output (Some 0) [0 \<mapsto> F0]
     = Inr (B0\<lparr>is_arg := False, argtype := argument_internal\<rparr>,
            [0 \<mapsto> F0\<lparr>buffers_list :=
                 [''buf'' \<mapsto> \<lparr>hb_type = Type 8 False False, hb_sizes = [2], hb_data = None,
                               hb_name = ''buf''\<rparr>]\<rparr>])
   \<and> get_argument_type (B0\<lparr>is_arg := False, argtype := argument_internal\<rparr>) = argument_internal"
proof -
  have r: "buffer_ctor ''buf'' 1 [2] (Type 8 False False) None False argument_output (Some 0) [0 \<mapsto> F0]
     = Inr (B0\<lparr>is_arg := False, argtype := argument_internal\<rparr>,
            [0 \<mapsto> F0\<lparr>buffers_list :=
                 [''buf'' \<mapsto> \<lparr>hb_type = Type 8 False False, hb_sizes = [2], hb_data = None,
                               hb_name = ''buf''\<rparr>]\<rparr>])"
    by (simp add: buffer_ctor_def B0_def F0_def map_insert_def)
  from argument_type_of_buffer [OF r] r show ?thesis by simp
qed

text \<open>
  C8, as the code has it.  The constructor of \<^verbatim>\<open>buffer\<close> succeeds exactly when the
  name is non-empty, \<^verbatim>\<open>nb_dims\<close> is positive, the vector of sizes has \<^verbatim>\<open>nb_dims\<close>
  entries and the parent function is a live, non-null object; it never looks at the sign
  of an entry of the vector.  When it fails, it fails on an assertion (or on a pointer
  to no object).
\<close>

theorem buffer_ctor_succeeds_iff:
  "(\<exists>r. buffer_ctor n d sz ty dat is_argument argt fct' fs = Inr r)
     \<longleftrightarrow> (length n > 0 \<and> d > 0 \<and> d = int (length sz) \<and> (\<exists>a f. fct' = Some a \<and> fs a = Some f))"
  by (auto simp: buffer_ctor_def Let_def split: if_splits option.splits)

theorem buffer_ctor_succeeds_iff_witness:
  "(\<exists>r. buffer_ctor ''b'' 2 [3, 0] (Type 8 False False) None True argument_input (Some 0) [0 \<mapsto> F0]
          = Inr r)
   \<and> (\<nexists>r. buffer_ctor ''b'' 2 [3] (Type 8 False False) None True argument_input (Some 0) [0 \<mapsto> F0]
          = Inr r)"
  using buffer_ctor_succeeds_iff
          [of "''b''" 2 "[3, 0]" "Type 8 False False" None True argument_input "Some 0" "[0 \<mapsto> F0]"]
        buffer_ctor_succeeds_iff
          [of "''b''" 2 "[3]" "Type 8 False False" None True argument_input "Some 0" "[0 \<mapsto> F0]"]
  by simp

text \<open>
  The claim C8 as the specification states it fails: a buffer of one dimension of size
  \<open>0\<close> is constructed without an error.
\<close>

theorem buffer_ctor_zero_size_counterexample:
  "buffer_ctor ''b'' 1 [0] (Type 8 False False) None True argument_input (Some 0) [0 \<mapsto> F0]
   = Inr (\<lparr>buffer.name = ''b'', nb_dims = 1, dim_sizes = [0], type = Type 8 False False,
           data = None, fct = Some 0, is_arg = True, argtype = argument_input\<rparr>,
          [0 \<mapsto> F0\<lparr>buffers_list :=
               [''b'' \<mapsto> \<lparr>hb_type = Type 8 False False, hb_sizes = [0], hb_data = None,
                           hb_name = ''b''\<rparr>]\<rparr>])"
  by (simp add: buffer_ctor_def F0_def map_insert_def)

text \<open>
  C7 is about a function on which \<^verbatim>\<open>gen_isl_ast\<close> was never called.  The constructor
  leaves \<^verbatim>\<open>ast\<close> as the storage had it, and \<^verbatim>\<open>get_isl_ast\<close> fails only when
  that happens to be \<^verbatim>\<open>NULL\<close>.
\<close>

lemma get_isl_ast_after_ctor:
  assumes "function_ctor storage_ast new_ctx n = Inr F"
  shows "get_isl_ast F =
     (case storage_ast of
        None \<Rightarrow> Inl (AssertionFailed ''(ast != NULL) && (\"You should generate an ISL ast first (gen_isl_ast()).\")'')
      | Some a \<Rightarrow> Inr a)"
  using assms by (auto simp: function_ctor_def get_isl_ast_def split: if_splits)

text \<open>
  C7 at a concrete input: a function constructed in storage whose \<^verbatim>\<open>ast\<close> word holds
  the stale non-null value \<open>7\<close>; \<^verbatim>\<open>get_isl_ast\<close> returns that value instead of failing.
\<close>

theorem get_isl_ast_stale_storage:
  "function_ctor (Some 7) 0 ''f''
     = Inr \<lparr>coli_function.name = ''f'', coli_function.ctx = 0, ast = Some 7,
            parallel_dimensions = Map.empty, vector_dimensions = Map.empty,
            body = [], halide_stmt = None, buffers_list = Map.empty\<rparr>
   \<and> get_isl_ast \<lparr>coli_function.name = ''f'', coli_function.ctx = 0, ast = Some 7,
            parallel_dimensions = Map.empty, vector_dimensions = Map.empty,
            body = [], halide_stmt = None, buffers_list = Map.empty\<rparr> = Inr 7"
  by (simp add: function_ctor_def get_isl_ast_def)

subsection \<open>Theorems about \<^verbatim>\<open>computation\<close>\<close>

lemma identity_pairs_on_ok:
  assumes "isl_set_ok D"
  shows "{(pv, x, y). (pv, x, y) \<in> {(pv, x, y). length pv = length (set_params D)
                                      \<and> length x = length (set_dims D) \<and> y = x}
                      \<and> (pv, x) \<in> set_points D}
         = {(pv, x, y). (pv, x) \<in> set_points D \<and> y = x}"
  using assms unfolding isl_set_ok_def by auto

text \<open>
  The chain of isl calls shared by \<^verbatim>\<open>set_identity_schedule\<close> and \<^verbatim>\<open>bind_to\<close>
  builds the identity relation on the points of the iteration domain; in particular
  \<^verbatim>\<open>isl_map_intersect_domain\<close> never fails there, the spaces match by construction.
\<close>

lemma identity_map_built:
  assumes "isl_set_ok D"
  shows "isl_map_coalesce
           (isl_map_set_tuple_name
              (isl_map_intersect_domain
                 (isl_map_identity (isl_space_map_from_set (isl_set_get_space (Some D))))
                 (isl_set_copy (Some D)))
              isl_dim_out n)
         = (if name_ok n then Some (identity_relation_on D n) else None)"
  using identity_pairs_on_ok [OF assms]
  by (simp add: isl_map_coalesce_def isl_set_copy_def isl_set_get_space_def
      identity_relation_on_def)

lemma apply_identity_relation:
  "isl_set_apply (Some D) (Some (identity_relation_on D n)) = Some (D\<lparr>set_tuple := Some n\<rparr>)"
  by (simp add: identity_relation_on_def)

lemma set_identity_schedule_result:
  assumes "iteration_domain c = Some D" and "isl_set_ok D"
  shows "set_identity_schedule c = Inr (c\<lparr>schedule := Some (identity_relation_on D [])\<rparr>)"
  using identity_map_built [OF assms(2), of "[]"] assms(1)
  by (simp add: set_identity_schedule_def get_iteration_domain_def set_schedule_def Let_def
      name_ok_def)

lemma init_computation_result:
  assumes "set_read_from_str tx s = Some D" and "isl_set_ok D" and "set_tuple D = Some n"
    and "length s > 0" and "fs a = Some F"
  shows "init_computation tx this storage s (Some a) fs =
     Inr (\<lparr>computation.ctx = coli_function.ctx F, time_processor_domain = None,
           iteration_domain = Some D, schedule = Some (identity_relation_on D []),
           function_ptr = Some a, name = n, expression = expression storage,
           stmt = UndefinedStmt, access = None, index_expr = None\<rparr>,
          fs(a \<mapsto> F\<lparr>body := body F @ [this]\<rparr>))"
proof -
  let ?c = "storage\<lparr>index_expr := None, access := None, schedule := None,
                    stmt := UndefinedStmt, time_processor_domain := None,
                    computation.ctx := coli_function.ctx F,
                    iteration_domain := Some D, computation.name := n, function_ptr := Some a\<rparr>"
  have "iteration_domain ?c = Some D" by simp
  from set_identity_schedule_result [OF this assms(2)]
  have "set_identity_schedule ?c = Inr (?c\<lparr>schedule := Some (identity_relation_on D [])\<rparr>)" .
  then show ?thesis
    using assms(1,3,4,5)
    by (simp add: init_computation_def isl_set_read_from_str_def isl_set_get_space_def
        get_ctx_def add_computation_def Let_def)
qed

lemma computation_ctor_result:
  assumes "set_read_from_str tx s = Some D" and "isl_set_ok D" and "set_tuple D = Some n"
    and "length s > 0" and "fs a = Some F"
  shows "computation_ctor tx this storage s e (Some a) fs =
     Inr (\<lparr>computation.ctx = coli_function.ctx F, time_processor_domain = None,
           iteration_domain = Some D, schedule = Some (identity_relation_on D []),
           function_ptr = Some a, name = n, expression = e,
           stmt = UndefinedStmt, access = None, index_expr = None\<rparr>,
          fs(a \<mapsto> F\<lparr>body := body F @ [this]\<rparr>))"
  using init_computation_result [where fs = fs and a = a, OF assms, of this storage]
  by (simp add: computation_ctor_def)

lemma computation_ctor_Inr:
  assumes "computation_ctor tx this storage s e fct' fs = Inr (c, fs')"
    and "set_read_from_str tx s = Some D"
  shows "\<exists>a F n. fct' = Some a \<and> fs a = Some F \<and> length s > 0 \<and> set_tuple D = Some n"
  using assms
  by (auto simp: computation_ctor_def init_computation_def isl_set_read_from_str_def
      isl_set_get_space_def Let_def split: option.splits if_splits sum.splits)

lemma c0_constructed:
  "computation_ctor tx0 1 storage0 ''{ S0[i] : 0 <= i < 2 }'' (Expr 0) (Some 0) [0 \<mapsto> F0]
     = Inr (c0, [0 \<mapsto> F0\<lparr>body := [1]\<rparr>])"
proof -
  have "set_read_from_str tx0 ''{ S0[i] : 0 <= i < 2 }'' = Some D0"
    by (simp add: tx0_def)
  moreover have "isl_set_ok D0"
    by (simp add: isl_set_ok_def D0_def)
  moreover have "set_tuple D0 = Some ''S0''"
    by (simp add: D0_def)
  moreover have "[0 \<mapsto> F0] (0::nat) = Some F0"
    by simp
  ultimately have "computation_ctor tx0 1 storage0 ''{ S0[i] : 0 <= i < 2 }'' (Expr 0) (Some 0) [0 \<mapsto> F0]
     = Inr (\<lparr>computation.ctx = coli_function.ctx F0, time_processor_domain = None,
           iteration_domain = Some D0, schedule = Some (identity_relation_on D0 []),
           function_ptr = Some 0, name = ''S0'', expression = Expr 0,
           stmt = UndefinedStmt, access = None, index_expr = None\<rparr>,
          [0 \<mapsto> F0, 0 \<mapsto> F0\<lparr>body := body F0 @ [1]\<rparr>])"
    by (intro computation_ctor_result) simp_all
  then show ?thesis
    by (simp add: c0_def F0_def)
qed

text \<open>
  C4. For a well-formed iteration-space string (isl reads it as a set \<open>D\<close> with a named
  tuple) and a non-null parent function, the constructor of \<^verbatim>\<open>computation\<close> (a) attaches
  \<open>D\<close> as the iteration domain, (b) takes the tuple name of \<open>D\<close> as the name, (c) adds the
  computation to the body of the parent function and (d) installs the identity schedule;
  \<^verbatim>\<open>access\<close>, \<^verbatim>\<open>index_expr\<close> and \<^verbatim>\<open>time_processor_domain\<close> are null afterwards.
\<close>

theorem computation_ctor_effects:
  assumes "set_read_from_str tx s = Some D" and "isl_set_ok D" and "set_tuple D = Some n"
    and "length s > 0" and "fs a = Some F"
  shows "computation_ctor tx this storage s e (Some a) fs =
     Inr (\<lparr>computation.ctx = coli_function.ctx F, time_processor_domain = None,
           iteration_domain = Some D, schedule = Some (identity_relation_on D []),
           function_ptr = Some a, name = n, expression = e,
           stmt = UndefinedStmt, access = None, index_expr = None\<rparr>,
          fs(a \<mapsto> F\<lparr>body := body F @ [this]\<rparr>))
       \<and> this \<in> set (body (F\<lparr>body := body F @ [this]\<rparr>))"
  using computation_ctor_result [where fs = fs and a = a, OF assms, of this storage e]
  by simp

theorem computation_ctor_effects_witness:
  "computation_ctor tx0 1 storage0 ''{ S0[i] : 0 <= i < 2 }'' (Expr 0) (Some 0) [0 \<mapsto> F0] =
     Inr (\<lparr>computation.ctx = 0, time_processor_domain = None,
           iteration_domain = Some D0, schedule = Some (identity_relation_on D0 []),
           function_ptr = Some 0, name = ''S0'', expression = Expr 0,
           stmt = UndefinedStmt, access = None, index_expr = None\<rparr>,
          [0 \<mapsto> F0\<lparr>body := [1]\<rparr>])
   \<and> (1::nat) \<in> set [1]"
proof -
  have "set_read_from_str tx0 ''{ S0[i] : 0 <= i < 2 }'' = Some D0"
    by (simp add: tx0_def)
  moreover have "isl_set_ok D0"
    by (simp add: isl_set_ok_def D0_def)
  moreover have "set_tuple D0 = Some ''S0''"
    by (simp add: D0_def)
  moreover have "length ''{ S0[i] : 0 <= i < 2 }'' > 0"
    by simp
  moreover have "[0 \<mapsto> F0] (0::nat) = Some F0"
    by simp
  ultimately show ?thesis
    using computation_ctor_effects [of tx0 "''{ S0[i] : 0 <= i < 2 }''" D0 "''S0''" "[0 \<mapsto> F0]" 0 F0
        1 storage0 "Expr 0"]
    by (simp add: F0_def)
qed

text \<open>
  C1. For every freshly constructed computation, applying its schedule to its iteration
  domain gives the iteration domain with the tuple name cleared to the empty string.
\<close>

theorem identity_schedule_neutral:
  assumes "computation_ctor tx this storage s e fct' fs = Inr (c, fs')"
    and "set_read_from_str tx s = Some D" and "isl_set_ok D"
  shows "iteration_domain c = Some D
       \<and> isl_set_apply (iteration_domain c) (schedule c) = Some (D\<lparr>set_tuple := Some []\<rparr>)"
proof -
  from computation_ctor_Inr [OF assms(1,2)]
  obtain a F n where a: "fct' = Some a" "fs a = Some F" "length s > 0" "set_tuple D = Some n"
    by blast
  from computation_ctor_result [where fs = fs and a = a, OF assms(2,3) a(4,3,2), of this storage e]
    assms(1) a(1)
  have "c = \<lparr>computation.ctx = coli_function.ctx F, time_processor_domain = None,
           iteration_domain = Some D, schedule = Some (identity_relation_on D []),
           function_ptr = Some a, name = n, expression = e,
           stmt = UndefinedStmt, access = None, index_expr = None\<rparr>" by simp
  then show ?thesis by (simp add: apply_identity_relation del: isl_set_apply.simps)
qed

theorem identity_schedule_neutral_witness:
  "iteration_domain c0 = Some D0
   \<and> isl_set_apply (iteration_domain c0) (schedule c0) = Some (D0\<lparr>set_tuple := Some []\<rparr>)"
proof -
  have rd: "set_read_from_str tx0 ''{ S0[i] : 0 <= i < 2 }'' = Some D0"
    by (simp add: tx0_def)
  have ok: "isl_set_ok D0"
    by (simp add: isl_set_ok_def D0_def)
  show ?thesis
    using identity_schedule_neutral [OF c0_constructed rd ok] .
qed

text \<open>
  C2. For a computation whose iteration domain and schedule are both non-null,
  \<^verbatim>\<open>gen_time_processor_domain\<close> sets the time-processor domain to
  \<^verbatim>\<open>isl_set_apply(iteration_domain, schedule)\<close>, whose points are the image of the points
  of the iteration domain under the schedule, and changes no other member.
\<close>

theorem gen_time_processor_domain_applies:
  assumes "iteration_domain c = Some D" and "schedule c = Some M"
  shows "gen_time_processor_domain c
           = Inr (c\<lparr>time_processor_domain := isl_set_apply (Some D) (Some M)\<rparr>)
       \<and> (case isl_set_apply (Some D) (Some M) of
            None \<Rightarrow> True
          | Some T \<Rightarrow>
             set_points T = {(pv, y). \<exists>x. (pv, x) \<in> set_points D \<and> (pv, x, y) \<in> map_pairs M})"
  using assms
  by (auto simp: gen_time_processor_domain_def get_iteration_domain_def get_schedule_def
      isl_set_copy_def isl_map_copy_def split: if_splits)

theorem gen_time_processor_domain_applies_witness:
  "gen_time_processor_domain c0
     = Inr (c0\<lparr>time_processor_domain := Some (D0\<lparr>set_tuple := Some []\<rparr>)\<rparr>)"
proof -
  have "iteration_domain c0 = Some D0" and "schedule c0 = Some (identity_relation_on D0 [])"
    by (simp_all add: c0_def)
  from gen_time_processor_domain_applies [OF this] show ?thesis
    by (simp add: apply_identity_relation del: isl_set_apply.simps)
qed




subsection \<open>Theorems about \<^verbatim>\<open>parser::map\<close>\<close>





















text \<open>Trimming and cutting change nothing but blanks.\<close>

lemma strip_blanks_append [simp]: "strip_blanks (xs @ ys) = strip_blanks xs @ strip_blanks ys"
  by (simp add: strip_blanks_def)

lemma strip_blanks_Cons [simp]:
  "strip_blanks (x # xs) = (if x = CHR '' '' then strip_blanks xs else x # strip_blanks xs)"
  by (simp add: strip_blanks_def)

lemma strip_blanks_Nil [simp]: "strip_blanks [] = []"
  by (simp add: strip_blanks_def)














end
